theory Spec2Isabelle
  imports Complex_Main "HOL-Library.Log_Nat"
begin

section \<open>JavaScript values used by main.js\<close>

text \<open>
  A JavaScript Number is an IEEE 754 binary64 value.  The finite ones are modelled by
  their exact mathematical value, a rational: \<open>Fin q\<close> is the Number whose value is
  \<open>q\<close> (\<open>Fin 0\<close> is \<open>+0\<close>), and \<open>NegZero\<close> is \<open>-0\<close>.  Every double is one of these
  values; the statements proved below for all \<open>q\<close> therefore hold for all doubles.

  A JavaScript string is modelled as a \<open>string\<close> holding its UTF-8 bytes.  The program
  takes lengths and slices only of strings produced by \<open>toFixed\<close>, which are ASCII, so
  bytes and UTF-16 code units agree wherever the program counts them.
\<close>

datatype jsnum = NaN | PosInf | NegInf | NegZero | Fin rat

text \<open>\<open>x === 0\<close> on Numbers: true for both zeros, false for NaN.\<close>

definition is_zero :: "jsnum \<Rightarrow> bool" where
  "is_zero x = (x = Fin 0 \<or> x = NegZero)"

fun is_neg :: "jsnum \<Rightarrow> bool" where
  "is_neg NegInf = True"
| "is_neg NegZero = True"
| "is_neg (Fin q) = (q < 0)"
| "is_neg _ = False"

fun is_inf :: "jsnum \<Rightarrow> bool" where
  "is_inf PosInf = True"
| "is_inf NegInf = True"
| "is_inf _ = False"

fun magnitude :: "jsnum \<Rightarrow> rat" where
  "magnitude (Fin q) = \<bar>q\<bar>"
| "magnitude _ = 0"

fun js_neg :: "jsnum \<Rightarrow> jsnum" where
  "js_neg NaN = NaN"
| "js_neg PosInf = NegInf"
| "js_neg NegInf = PosInf"
| "js_neg NegZero = Fin 0"
| "js_neg (Fin q) = (if q = 0 then NegZero else Fin (- q))"

subsection \<open>Rounding a real value to a double\<close>

text \<open>
  Round to nearest, ties to even, as IEEE 754 prescribes for binary64: 53 significant
  bits, least exponent \<open>-1022\<close> (below it the spacing stays \<open>2 ^ -1074\<close>), and a result
  of \<open>2 ^ 1024\<close> or more is infinity.
\<close>

definition round_half_even :: "rat \<Rightarrow> int" where
  "round_half_even q =
     (let f = \<lfloor>q\<rfloor>; d = q - of_int f
      in if d < 1 / 2 then f else if 1 / 2 < d then f + 1 else if even f then f else f + 1)"

definition pow2 :: "int \<Rightarrow> rat" where
  "pow2 e = (if 0 \<le> e then 2 ^ nat e else 1 / 2 ^ nat (- e))"

text \<open>\<open>ilog2 q\<close> is the exponent \<open>e\<close> with \<open>2 ^ e \<le> q < 2 ^ (e + 1)\<close>, for \<open>q > 0\<close>.\<close>

definition ilog2 :: "rat \<Rightarrow> int" where
  "ilog2 q =
     (if 1 \<le> q then int (floorlog 2 (nat \<lfloor>q\<rfloor>)) - 1
      else - int (floorlog 2 (nat \<lceil>1 / q\<rceil> - 1)))"

definition fl_pos :: "rat \<Rightarrow> jsnum" where
  "fl_pos q =
     (let e = max (ilog2 q) (- 1022);
          ulp = pow2 (e - 52);
          v = of_int (round_half_even (q / ulp)) * ulp
      in if 2 ^ 1024 \<le> v then PosInf else Fin v)"

definition js_mul :: "jsnum \<Rightarrow> jsnum \<Rightarrow> jsnum" where
  "js_mul a b =
     (if a = NaN \<or> b = NaN then NaN
      else if is_inf a \<or> is_inf b then
        (if is_zero a \<or> is_zero b then NaN
         else if is_neg a \<noteq> is_neg b then NegInf else PosInf)
      else
        (let p = magnitude a * magnitude b;
             m = (if p = 0 then Fin 0 else fl_pos p)
         in if is_neg a \<noteq> is_neg b then js_neg m else m))"

text \<open>\<open>x || 0\<close> on a Number \<open>x\<close>: NaN and both zeros are falsy.\<close>

definition or_zero :: "jsnum \<Rightarrow> jsnum" where
  "or_zero x = (if x = NaN \<or> is_zero x then Fin 0 else x)"

subsection \<open>Decimal digits\<close>

definition digit_char :: "nat \<Rightarrow> char" where
  "digit_char d = ''0123456789'' ! d"

function dec_digits :: "nat \<Rightarrow> string" where
  "dec_digits n =
     (if n < 10 then [digit_char n] else dec_digits (n div 10) @ [digit_char (n mod 10)])"
  by pat_completeness auto
termination
  by (relation "measure id") auto

declare dec_digits.simps [simp del]

definition is_digit :: "char \<Rightarrow> bool" where
  "is_digit c = (c \<in> set ''0123456789'')"

definition digit_of :: "char \<Rightarrow> nat" where
  "digit_of c = of_char c - 48"

definition digits_val :: "string \<Rightarrow> nat" where
  "digits_val ds = foldl (\<lambda>a c. 10 * a + digit_of c) 0 ds"

definition pow10 :: "int \<Rightarrow> rat" where
  "pow10 e = (if 0 \<le> e then 10 ^ nat e else 1 / 10 ^ nat (- e))"

subsection \<open>Number.prototype.toFixed(2)\<close>

text \<open>
  \<open>Number::toString\<close> for a finite \<open>x \<ge> 10 ^ 21\<close>, the only range where \<open>toFixed\<close>
  falls back on it.  ECMAScript asks for integers \<open>n\<close>, \<open>k\<close>, \<open>s\<close> with \<open>k \<ge> 1\<close>,
  \<open>10 ^ (k - 1) \<le> s < 10 ^ k\<close>, \<open>s * 10 ^ (n - k)\<close> rounding to \<open>x\<close>, and \<open>k\<close> as small as
  possible; as \<open>n > 21\<close> the result is in exponent notation.  \<open>digit_cands q k\<close> lists the
  pairs \<open>(s, n)\<close> that qualify for a given \<open>k\<close>; where several do, the standard leaves the
  choice open and the model takes the one nearest to \<open>x\<close>.  Seventeen digits identify every
  double; the last branch of \<open>shortest_digits\<close> only makes the function total on rationals
  that are no doubles.
\<close>

definition digit_cands :: "rat \<Rightarrow> nat \<Rightarrow> (nat \<times> nat) list" where
  "digit_cands q k =
     (let d = length (dec_digits (nat \<lfloor>q\<rfloor>))
      in concat (map (\<lambda>n.
           filter (\<lambda>(s, n). 10 ^ (k - 1) \<le> s \<and> s < 10 ^ k \<and>
                               fl_pos (of_nat s * 10 ^ (n - k)) = Fin q)
             (remdups [(nat \<lfloor>q / 10 ^ (n - k)\<rfloor>, n), (nat \<lceil>q / 10 ^ (n - k)\<rceil>, n)]))
           [d, d + 1]))"

definition shortest_digits :: "rat \<Rightarrow> nat \<times> nat \<times> nat" where
  "shortest_digits q =
     (case find (\<lambda>k. digit_cands q k \<noteq> []) [1 ..< 18] of
        Some k \<Rightarrow>
          (let (s, n) = arg_min_list (\<lambda>(s, n). \<bar>of_nat s * 10 ^ (n - k) - q\<bar>) (digit_cands q k)
           in (k, s, n))
      | None \<Rightarrow>
          (let d = length (dec_digits (nat \<lfloor>q\<rfloor>))
           in (17, nat \<lfloor>q / 10 ^ (d - 17)\<rfloor>, d)))"

definition toString_large :: "rat \<Rightarrow> string" where
  "toString_large q =
     (let (k, s, n) = shortest_digits q; ds = dec_digits s; e = dec_digits (n - 1)
      in if k = 1 then ds @ ''e+'' @ e else take 1 ds @ ''.'' @ drop 1 ds @ ''e+'' @ e)"

text \<open>
  The fixed notation of \<open>toFixed(2)\<close>: \<open>n\<close> is the integer nearest to \<open>100 * x\<close> (the larger
  one at a tie), written with at least three digits and a point before the last two.
\<close>

definition fixed_digits :: "nat \<Rightarrow> string" where
  "fixed_digits n =
     (let m0 = dec_digits n;
          m = (if length m0 \<le> 2 then replicate (3 - length m0) (CHR ''0'') @ m0 else m0)
      in take (length m - 2) m @ ''.'' @ drop (length m - 2) m)"

definition toFixed2 :: "jsnum \<Rightarrow> string" where
  "toFixed2 x =
     (case x of
        NaN \<Rightarrow> ''NaN''
      | PosInf \<Rightarrow> ''Infinity''
      | NegInf \<Rightarrow> ''-Infinity''
      | NegZero \<Rightarrow> ''0.00''
      | Fin q \<Rightarrow>
          (if q < 0 then ''-'' else []) @
          (if 10 ^ 21 \<le> \<bar>q\<bar> then toString_large \<bar>q\<bar>
           else fixed_digits (nat \<lfloor>\<bar>q\<bar> * 100 + 1 / 2\<rfloor>)))"

subsection \<open>parseFloat\<close>

text \<open>
  \<open>parseFloat\<close> skips leading white space, takes the longest prefix of the rest that is
  a \<open>StrDecimalLiteral\<close> (an optional sign, then \<open>Infinity\<close> or decimal digits with an
  optional fraction and an optional exponent), and returns its value rounded to a double;
  without such a prefix the result is NaN.  \<open>ws_seqs\<close> are the UTF-8 encodings of the
  white space and line terminator code points.
\<close>

definition ws_seqs :: "string list" where
  "ws_seqs =
     [[CHR 0x09], [CHR 0x0A], [CHR 0x0B], [CHR 0x0C], [CHR 0x0D], [CHR 0x20],
      [CHR 0xC2, CHR 0xA0], [CHR 0xE1, CHR 0x9A, CHR 0x80]] @
     map (\<lambda>b. [CHR 0xE2, CHR 0x80, b])
       [CHR 0x80, CHR 0x81, CHR 0x82, CHR 0x83, CHR 0x84, CHR 0x85, CHR 0x86, CHR 0x87,
        CHR 0x88, CHR 0x89, CHR 0x8A, CHR 0xA8, CHR 0xA9, CHR 0xAF] @
     [[CHR 0xE2, CHR 0x81, CHR 0x9F], [CHR 0xE3, CHR 0x80, CHR 0x80],
      [CHR 0xEF, CHR 0xBB, CHR 0xBF]]"

definition ws_prefix :: "string \<Rightarrow> string option" where
  "ws_prefix s = find (\<lambda>w. take (length w) s = w) ws_seqs"

function trim_start :: "string \<Rightarrow> string" where
  "trim_start s = (case ws_prefix s of None \<Rightarrow> s | Some w \<Rightarrow> trim_start (drop (length w) s))"
  by pat_completeness auto
termination
proof (relation "measure length")
  show "wf (measure length)" by simp
next
  fix s w
  assume "ws_prefix s = Some w"
  then have w: "w \<in> set ws_seqs" and t: "take (length w) s = w"
    by (auto simp: ws_prefix_def find_Some_iff)
  from w have a: "0 < length w"
    by (auto simp: ws_seqs_def)
  from t have "length (take (length w) s) = length w"
    by simp
  then have b: "length w \<le> length s"
    by simp
  have "length s - length w < length s"
    using a b by linarith
  then show "(drop (length w) s, s) \<in> measure length"
    by simp
qed

declare trim_start.simps [simp del]

definition parse_sign :: "string \<Rightarrow> bool \<times> string" where
  "parse_sign s =
     (case s of
        [] \<Rightarrow> (False, [])
      | c # r \<Rightarrow>
          if c = CHR ''-'' then (True, r) else if c = CHR ''+'' then (False, r) else (False, s))"

text \<open>The value of an \<open>ExponentPart\<close> at the head of the string, \<open>0\<close> when there is none.\<close>

definition scan_exponent :: "string \<Rightarrow> int" where
  "scan_exponent r =
     (case r of
        [] \<Rightarrow> 0
      | c # r1 \<Rightarrow>
          if c = CHR ''e'' \<or> c = CHR ''E'' then
            (let (neg, r2) = parse_sign r1; ds = takeWhile is_digit r2
             in if ds = [] then 0
                else if neg then - int (digits_val ds) else int (digits_val ds))
          else 0)"

definition scan_fraction :: "string \<Rightarrow> string \<times> string" where
  "scan_fraction r1 =
     (case r1 of
        [] \<Rightarrow> ([], r1)
      | c # r \<Rightarrow>
          if c = CHR ''.'' then (takeWhile is_digit r, dropWhile is_digit r) else ([], r1))"

definition parse_unsigned :: "string \<Rightarrow> jsnum" where
  "parse_unsigned s =
     (if take 8 s = ''Infinity'' then PosInf
      else
        let ip = takeWhile is_digit s;
            (fp, r2) = scan_fraction (dropWhile is_digit s)
        in if ip = [] \<and> fp = [] then NaN
           else
             let mv = (of_nat (digits_val ip) + of_nat (digits_val fp) / 10 ^ length fp)
                        * pow10 (scan_exponent r2)
             in if mv = 0 then Fin 0 else fl_pos mv)"

definition parseFloat :: "string \<Rightarrow> jsnum" where
  "parseFloat s =
     (let (neg, r) = parse_sign (trim_start s); v = parse_unsigned r
      in if neg then js_neg v else v)"



section \<open>formatNPR\<close>

text \<open>
  \<open>s.split('.')\<close> as the first piece and the list of the others; \<open>s.slice(-n)\<close> and
  \<open>s.slice(0, -n)\<close>, which clamp at the start of the string.
\<close>

fun split_on :: "char \<Rightarrow> string \<Rightarrow> string \<times> string list" where
  "split_on c [] = ([], [])"
| "split_on c (x # xs) =
     (let (p, ps) = split_on c xs in if x = c then ([], p # ps) else (x # p, ps))"

definition slice_last :: "nat \<Rightarrow> string \<Rightarrow> string" where
  "slice_last n s = drop (length s - n) s"

definition slice_front :: "nat \<Rightarrow> string \<Rightarrow> string" where
  "slice_front n s = take (length s - n) s"

definition startsWith :: "char \<Rightarrow> string \<Rightarrow> bool" where
  "startsWith c s = (case s of [] \<Rightarrow> False | x # _ \<Rightarrow> x = c)"

text \<open>The prefix of the source, the code points U+0930 and U+0942 and a space.\<close>

definition npr_prefix :: string where
  "npr_prefix = [CHR 0xE0, CHR 0xA4, CHR 0xB0, CHR 0xE0, CHR 0xA5, CHR 0x82, CHR 0x20]"

text \<open>The \<open>while (remaining.length > 0)\<close> loop of \<open>formatNPR\<close>.\<close>

function nepali_loop :: "string \<Rightarrow> string \<Rightarrow> string" where
  "nepali_loop remaining formatted =
     (if 0 < length remaining
      then nepali_loop (slice_front 2 remaining) (slice_last 2 remaining @ '','' @ formatted)
      else formatted)"
  by pat_completeness auto
termination
  by (relation "measure (\<lambda>(remaining, formatted). length remaining)")
     (auto simp: slice_front_def)

declare nepali_loop.simps [simp del]

text \<open>
  \<open>decPart\<close> is \<open>parts[1]\<close>: \<open>undefined\<close> when the string has no point, and string
  concatenation then appends the text \<open>undefined\<close>.
\<close>

definition formatNPR :: "jsnum \<Rightarrow> string" where
  "formatNPR amount =
     (if is_zero amount then npr_prefix @ ''0.00''
      else
        let (intPart0, more) = split_on (CHR ''.'') (toFixed2 amount);
            decPart = (case more of [] \<Rightarrow> ''undefined'' | d # _ \<Rightarrow> d);
            isNegative = startsWith (CHR ''-'') intPart0;
            intPart = (if isNegative then drop 1 intPart0 else intPart0);
            formatted =
              (if length intPart \<le> 3 then intPart
               else nepali_loop (slice_front 3 intPart) (slice_last 3 intPart))
        in (if isNegative then ''-'' else []) @ npr_prefix @ formatted @ ''.'' @ decPart)"

section \<open>The application state\<close>

text \<open>
  \<open>ratesData\<close> is the parsed \<open>rates.json\<close>: \<open>rates\<close> lists the entries of the object in
  the order \<open>Object.entries\<close> yields them, and \<open>rates[code]\<close> is \<open>map_of\<close> on that list (own
  properties only; every entry is an object with Number fields \<open>buy\<close> and \<open>sell\<close>).
  An \<open>element\<close> carries the DOM properties the program reads or writes; an element that
  \<open>getElementById\<close> did not find is \<open>None\<close>.  \<open>timers\<close> holds the \<open>setTimeout\<close> requests
  of \<open>convertCurrency\<close> (delay and callback) that have not run yet.
\<close>

record rate =
  buy :: jsnum
  sell :: jsnum

record rates_data =
  updated :: string
  rates :: "(string \<times> rate) list"

record element =
  el_value :: string
  textContent :: string
  innerHTML :: string
  style_color :: string
  style_background :: string
  style_transform :: string

record dom_elements =
  currency :: "element option"
  amount :: "element option"
  convertBtn :: "element option"
  resultBox :: "element option"
  resultAmount :: "element option"
  resultRate :: "element option"
  lastUpdated :: "element option"
  ratesBody :: "element option"

datatype callback = ResetScale

record app =
  ratesData :: "rates_data option"
  isLoading :: bool
  elements :: dom_elements
  timers :: "(nat \<times> callback) list"

record currency_config =
  name :: string
  flag :: string
  symbol :: "string option"

definition CURRENCY_CONFIG :: "(string \<times> currency_config) list" where
  "CURRENCY_CONFIG =
     [(''USD'', \<lparr>name = ''US Dollar'',
        flag = [CHR 0xF0, CHR 0x9F, CHR 0x87, CHR 0xBA, CHR 0xF0, CHR 0x9F, CHR 0x87, CHR 0xB8],
        symbol = Some ''$''\<rparr>),
      (''QAR'', \<lparr>name = ''Qatar Riyal'',
        flag = [CHR 0xF0, CHR 0x9F, CHR 0x87, CHR 0xB6, CHR 0xF0, CHR 0x9F, CHR 0x87, CHR 0xA6],
        symbol = Some ''QR''\<rparr>),
      (''MYR'', \<lparr>name = ''Malaysian Ringgit'',
        flag = [CHR 0xF0, CHR 0x9F, CHR 0x87, CHR 0xB2, CHR 0xF0, CHR 0x9F, CHR 0x87, CHR 0xBE],
        symbol = Some ''RM''\<rparr>),
      (''AED'', \<lparr>name = ''UAE Dirham'',
        flag = [CHR 0xF0, CHR 0x9F, CHR 0x87, CHR 0xA6, CHR 0xF0, CHR 0x9F, CHR 0x87, CHR 0xAA],
        symbol = Some [CHR 0xD8, CHR 0xAF, CHR 0x2E, CHR 0xD8, CHR 0xA5]\<rparr>),
      (''SAR'', \<lparr>name = ''Saudi Riyal'',
        flag = [CHR 0xF0, CHR 0x9F, CHR 0x87, CHR 0xB8, CHR 0xF0, CHR 0x9F, CHR 0x87, CHR 0xA6],
        symbol = Some ''SR''\<rparr>)]"

definition nl :: string where
  "nl = [CHR 0x0A]"

definition sp :: "nat \<Rightarrow> string" where
  "sp n = replicate n (CHR 0x20)"

subsection \<open>showConversionError and showError\<close>

definition showConversionError :: "string \<Rightarrow> app \<Rightarrow> app" where
  "showConversionError message st =
     (case resultAmount (elements st) of
        None \<Rightarrow> st
      | Some el \<Rightarrow>
          st\<lparr>elements := (elements st)\<lparr>resultAmount :=
            Some (el\<lparr>textContent := message, style_color := ''#dc3545''\<rparr>)\<rparr>\<rparr>)"

definition error_row :: string where
  "error_row =
     nl @ sp 16 @ ''<tr>'' @
     nl @ sp 20 @ ''<td colspan='' @ [CHR 0x22] @ ''3'' @ [CHR 0x22] @ '' class='' @
       [CHR 0x22] @ ''error-cell'' @ [CHR 0x22] @ ''>'' @
     nl @ sp 24 @ ''Unable to load exchange rates. Please refresh the page.'' @
     nl @ sp 20 @ ''</td>'' @
     nl @ sp 16 @ ''</tr>'' @
     nl @ sp 12"

definition load_failed_text :: string where
  "load_failed_text =
     [CHR 0xE2, CHR 0x9A, CHR 0xA0, CHR 0xEF, CHR 0xB8, CHR 0x8F] @
     '' Unable to load rates. Please refresh.''"

definition showError :: "app \<Rightarrow> app" where
  "showError st =
     (let es = elements st;
          es1 = (case lastUpdated es of
                   None \<Rightarrow> es
                 | Some el \<Rightarrow> es\<lparr>lastUpdated := Some (el\<lparr>textContent := load_failed_text,
                     style_background := ''#f8d7da'', style_color := ''#721c24''\<rparr>)\<rparr>);
          es2 = (case ratesBody es1 of
                   None \<Rightarrow> es1
                 | Some el \<Rightarrow> es1\<lparr>ratesBody := Some (el\<lparr>innerHTML := error_row\<rparr>)\<rparr>);
          es3 = (case resultAmount es2 of
                   None \<Rightarrow> es2
                 | Some el \<Rightarrow>
                     es2\<lparr>resultAmount := Some (el\<lparr>textContent := ''Rates unavailable''\<rparr>)\<rparr>)
      in st\<lparr>elements := es3\<rparr>)"

subsection \<open>convertCurrency\<close>

text \<open>The callback of the \<open>setTimeout\<close> in \<open>convertCurrency\<close>, run 150 ms later.\<close>

fun run_callback :: "callback \<Rightarrow> app \<Rightarrow> app" where
  "run_callback ResetScale st =
     (case resultBox (elements st) of
        None \<Rightarrow> st
      | Some el \<Rightarrow>
          st\<lparr>elements := (elements st)\<lparr>resultBox := Some (el\<lparr>style_transform := ''scale(1)''\<rparr>)\<rparr>\<rparr>)"

definition convertCurrency :: "app \<Rightarrow> app" where
  "convertCurrency st =
     (case (ratesData st, currency (elements st), amount (elements st)) of
        (Some rd, Some cur, Some amt) \<Rightarrow>
          (let code = el_value cur;
               amnt = or_zero (parseFloat (el_value amt))
           in case map_of (rates rd) code of
                None \<Rightarrow> showConversionError ''Currency not available'' st
              | Some r \<Rightarrow>
                  (let rt = sell r;
                       result = js_mul amnt rt;
                       formattedResult = formatNPR result;
                       formattedRate = toFixed2 rt;
                       es = elements st;
                       es1 = (case resultAmount es of
                                None \<Rightarrow> es
                              | Some el \<Rightarrow>
                                  es\<lparr>resultAmount := Some (el\<lparr>textContent := formattedResult\<rparr>)\<rparr>);
                       es2 = (case resultRate es1 of
                                None \<Rightarrow> es1
                              | Some el \<Rightarrow>
                                  es1\<lparr>resultRate := Some (el\<lparr>textContent :=
                                    ''1 '' @ code @ '' = NPR '' @ formattedRate\<rparr>)\<rparr>)
                   in case resultBox es2 of
                        None \<Rightarrow> st\<lparr>elements := es2\<rparr>
                      | Some el \<Rightarrow>
                          st\<lparr>elements :=
                               es2\<lparr>resultBox := Some (el\<lparr>style_transform := ''scale(1.02)''\<rparr>)\<rparr>,
                             timers := timers st @ [(150, ResetScale)]\<rparr>))
      | _ \<Rightarrow> st)"

subsection \<open>updateRatesTable, updateLastUpdated and loadRates\<close>

definition table_row :: "string \<times> rate \<Rightarrow> string" where
  "table_row entry =
     (case entry of (code, r) \<Rightarrow>
        let config = (case map_of CURRENCY_CONFIG code of
                        Some c \<Rightarrow> c
                      | None \<Rightarrow> \<lparr>name = code,
                          flag = [CHR 0xF0, CHR 0x9F, CHR 0x8F, CHR 0xB3, CHR 0xEF, CHR 0xB8, CHR 0x8F],
                          symbol = None\<rparr>)
        in nl @ sp 16 @ ''<tr>'' @
           nl @ sp 20 @ ''<td>'' @ flag config @ '' '' @ code @ '' - '' @ name config @ ''</td>'' @
           nl @ sp 20 @ ''<td>'' @ toFixed2 (buy r) @ ''</td>'' @
           nl @ sp 20 @ ''<td>'' @ toFixed2 (sell r) @ ''</td>'' @
           nl @ sp 16 @ ''</tr>'' @
           nl @ sp 12)"

definition updateRatesTable :: "app \<Rightarrow> app" where
  "updateRatesTable st =
     (case (ratesBody (elements st), ratesData st) of
        (Some el, Some rd) \<Rightarrow>
          st\<lparr>elements := (elements st)\<lparr>ratesBody :=
            Some (el\<lparr>innerHTML := concat (map table_row (rates rd))\<rparr>)\<rparr>\<rparr>
      | _ \<Rightarrow> st)"

text \<open>
  \<open>toLocaleDateString\<close> is the browser's; \<open>updateLastUpdated\<close> takes the formatting of
  the \<open>updated\<close> field as a parameter.
\<close>

definition updateLastUpdated :: "(string \<Rightarrow> string) \<Rightarrow> app \<Rightarrow> app" where
  "updateLastUpdated toLocaleDateString st =
     (case (lastUpdated (elements st), ratesData st) of
        (Some el, Some rd) \<Rightarrow>
          st\<lparr>elements := (elements st)\<lparr>lastUpdated :=
            Some (el\<lparr>textContent := [CHR 0xF0, CHR 0x9F, CHR 0x93, CHR 0x85] @
              '' Last updated: '' @ toLocaleDateString (updated rd)\<rparr>)\<rparr>\<rparr>
      | _ \<Rightarrow> st)"

text \<open>
  \<open>loadRates\<close> after the fetch has settled: \<open>Some rd\<close> is a response that was ok and
  parsed to \<open>rd\<close>, \<open>None\<close> any failure, which runs the \<open>catch\<close> branch.
\<close>

definition loadRates :: "(string \<Rightarrow> string) \<Rightarrow> rates_data option \<Rightarrow> app \<Rightarrow> app" where
  "loadRates toLocaleDateString fetched st =
     (case fetched of
        Some rd \<Rightarrow>
          (let st1 = st\<lparr>ratesData := Some rd, isLoading := False\<rparr>;
               st2 = updateLastUpdated toLocaleDateString st1;
               st3 = updateRatesTable st2
           in case amount (elements st3) of
                Some amt \<Rightarrow> if el_value amt \<noteq> [] then convertCurrency st3 else st3
              | None \<Rightarrow> st3)
      | None \<Rightarrow> showError (st\<lparr>isLoading := False\<rparr>))"

section \<open>debounce\<close>

text \<open>
  \<open>debounce(func, wait)\<close> returns \<open>executedFunction\<close>, which shares the variable
  \<open>timeout\<close> with the \<open>later\<close> closures it creates.  The browser's timers are a table
  \<open>pending\<close> of entries (id, due time, arguments captured by \<open>later\<close>); time is counted
  in milliseconds, and \<open>target\<close> is the state \<open>func\<close> acts on.  A timer runs when the clock
  reaches its due time, earlier timers first.
\<close>

record ('a, 's) sched =
  now :: nat
  next_id :: nat
  pending :: "(nat \<times> nat \<times> 'a) list"
  timeout :: "nat option"
  target :: 's

definition sched_init :: "'s \<Rightarrow> ('a, 's) sched" where
  "sched_init tgt = \<lparr>now = 0, next_id = 1, pending = [], timeout = None, target = tgt\<rparr>"

definition clearTimeout :: "nat option \<Rightarrow> ('a, 's) sched \<Rightarrow> ('a, 's) sched" where
  "clearTimeout h s =
     (case h of
        None \<Rightarrow> s
      | Some i \<Rightarrow> s\<lparr>pending := filter (\<lambda>(j, d, a). j \<noteq> i) (pending s)\<rparr>)"

definition setTimeout :: "'a \<Rightarrow> nat \<Rightarrow> ('a, 's) sched \<Rightarrow> nat \<times> ('a, 's) sched" where
  "setTimeout a wait s =
     (next_id s,
      s\<lparr>pending := pending s @ [(next_id s, now s + wait, a)], next_id := Suc (next_id s)\<rparr>)"

definition later :: "('a \<Rightarrow> 's \<Rightarrow> 's) \<Rightarrow> 'a \<Rightarrow> ('a, 's) sched \<Rightarrow> ('a, 's) sched" where
  "later func a s =
     (let s1 = clearTimeout (timeout s) s in s1\<lparr>target := func a (target s1)\<rparr>)"

definition executedFunction :: "nat \<Rightarrow> 'a \<Rightarrow> ('a, 's) sched \<Rightarrow> ('a, 's) sched" where
  "executedFunction wait a s =
     (let s1 = clearTimeout (timeout s) s;
          (h, s2) = setTimeout a wait s1
      in s2\<lparr>timeout := Some h\<rparr>)"

text \<open>The event loop up to time \<open>t\<close>: the due timers run, the earliest first.\<close>

definition next_due :: "nat \<Rightarrow> ('a, 's) sched \<Rightarrow> (nat \<times> nat \<times> 'a) option" where
  "next_due t s =
     (case filter (\<lambda>(i, d, a). d \<le> t) (pending s) of
        [] \<Rightarrow> None
      | x # xs \<Rightarrow> Some (arg_min_list (\<lambda>(i, d, a). d) (x # xs)))"

definition fire ::
  "('a \<Rightarrow> 's \<Rightarrow> 's) \<Rightarrow> nat \<times> nat \<times> 'a \<Rightarrow> ('a, 's) sched \<Rightarrow> ('a, 's) sched" where
  "fire func tm s =
     (case tm of (i, d, a) \<Rightarrow>
        later func a
          (s\<lparr>pending := filter (\<lambda>(j, d', a'). j \<noteq> i) (pending s), now := max (now s) d\<rparr>))"

function run_until ::
  "('a \<Rightarrow> 's \<Rightarrow> 's) \<Rightarrow> nat \<Rightarrow> ('a, 's) sched \<Rightarrow> ('a, 's) sched" where
  "run_until func t s =
     (case next_due t s of
        None \<Rightarrow> s\<lparr>now := max (now s) t\<rparr>
      | Some tm \<Rightarrow> run_until func t (fire func tm s))"
  by pat_completeness auto
termination
proof (relation "measure (\<lambda>(func, t, s). length (pending s))")
  show "wf (measure (\<lambda>(func, t, s). length (pending s)))" by simp
next
  fix func :: "'a \<Rightarrow> 's \<Rightarrow> 's" and t :: nat and s :: "('a, 's) sched" and tm
  assume "next_due t s = Some tm"
  then obtain x xs where due: "filter (\<lambda>(i, d, a). d \<le> t) (pending s) = x # xs"
    and least: "tm = arg_min_list (\<lambda>(i, d, a). d) (x # xs)"
    by (auto simp: next_due_def split: list.splits)
  have "tm \<in> set (x # xs)"
    unfolding least by (rule arg_min_list_in) simp
  then have "tm \<in> set (filter (\<lambda>(i, d, a). d \<le> t) (pending s))"
    using due by simp
  then have mem: "tm \<in> set (pending s)"
    by simp
  obtain i d a where tm: "tm = (i, d, a)"
    by (cases tm) auto
  have "length (filter (\<lambda>(j, d', a'). j \<noteq> i) (pending s)) < length (pending s)"
    using mem tm by (intro length_filter_less [where x = tm]) auto
  moreover have "length (pending (fire func tm s))
      \<le> length (filter (\<lambda>(j, d', a'). j \<noteq> i) (pending s))"
    by (simp add: fire_def tm later_def clearTimeout_def Let_def del: filter_filter
        split: option.splits)
  ultimately show "((func, t, fire func tm s), (func, t, s))
      \<in> measure (\<lambda>(func, t, s). length (pending s))"
    by simp
qed

declare run_until.simps [simp del]

text \<open>
  A series of \<open>input\<close> events, each a time and the arguments of the call: the clock
  advances to the event, then \<open>executedFunction\<close> runs.
\<close>

fun run_triggers ::
  "('a \<Rightarrow> 's \<Rightarrow> 's) \<Rightarrow> nat \<Rightarrow> (nat \<times> 'a) list \<Rightarrow> ('a, 's) sched \<Rightarrow> ('a, 's) sched" where
  "run_triggers func wait [] s = s"
| "run_triggers func wait ((t, a) # es) s =
     run_triggers func wait es (executedFunction wait a (run_until func t s))"

text \<open>The wait that \<open>bindEvents\<close> passes to \<open>debounce\<close> for the \<open>input\<close> listener.\<close>

definition input_wait :: nat where
  "input_wait = 300"

text \<open>
  Triggers in time order, each less than \<open>wait\<close> after the one before.
\<close>

fun quiet_burst :: "nat \<Rightarrow> (nat \<times> 'a) list \<Rightarrow> bool" where
  "quiet_burst wait (e1 # e2 # es) =
     (fst e1 \<le> fst e2 \<and> fst e2 < fst e1 + wait \<and> quiet_burst wait (e2 # es))"
| "quiet_burst wait _ = True"

section \<open>The formatting rule as the specification words it\<close>

text \<open>
  The amount rounded to two decimals, in hundredths (the nearest, the larger in
  magnitude at a tie); the digits to the left of the last three in chunks of two, a
  single digit leftmost when their number is odd; the sign, the prefix, the grouped
  integer part, a point and the two fractional digits.
\<close>

definition spec_cents :: "rat \<Rightarrow> nat" where
  "spec_cents x = nat \<lfloor>\<bar>x\<bar> * 100 + 1 / 2\<rfloor>"

fun pairs :: "string \<Rightarrow> string list" where
  "pairs (a # b # r) = [a, b] # pairs r"
| "pairs _ = []"

definition chunks_of_two :: "string \<Rightarrow> string list" where
  "chunks_of_two ds = (if odd (length ds) then take 1 ds # pairs (drop 1 ds) else pairs ds)"

definition spec_group :: "string \<Rightarrow> string" where
  "spec_group ds =
     (if length ds \<le> 3 then ds
      else concat (map (\<lambda>c. c @ '','') (chunks_of_two (take (length ds - 3) ds)))
             @ drop (length ds - 3) ds)"

definition two_digits :: "nat \<Rightarrow> string" where
  "two_digits m = [digit_char (m div 10), digit_char (m mod 10)]"

definition spec_format :: "rat \<Rightarrow> string" where
  "spec_format x =
     (if x = 0 then npr_prefix @ ''0.00''
      else (if x < 0 then ''-'' else []) @ npr_prefix
             @ spec_group (dec_digits (spec_cents x div 100))
             @ ''.'' @ two_digits (spec_cents x mod 100))"

section \<open>Example states\<close>

text \<open>
  A page on which all eight elements exist, the currency selector holding \<open>code\<close> and
  the amount field holding \<open>raw\<close>; \<open>loading_app\<close> is the state before the fetch has
  settled, \<open>loaded_app\<close> the state with a snapshot in place.
\<close>

definition blank :: element where
  "blank = \<lparr>el_value = [], textContent = [], innerHTML = [], style_color = [],
     style_background = [], style_transform = []\<rparr>"

definition page :: "string \<Rightarrow> string \<Rightarrow> dom_elements" where
  "page code raw =
     \<lparr>currency = Some (blank\<lparr>el_value := code\<rparr>), amount = Some (blank\<lparr>el_value := raw\<rparr>),
      convertBtn = Some blank, resultBox = Some blank, resultAmount = Some blank,
      resultRate = Some blank, lastUpdated = Some blank, ratesBody = Some blank\<rparr>"

definition loading_app :: "string \<Rightarrow> string \<Rightarrow> app" where
  "loading_app code raw =
     \<lparr>ratesData = None, isLoading = True, elements = page code raw, timers = []\<rparr>"

definition loaded_app :: "(string \<times> rate) list \<Rightarrow> string \<Rightarrow> string \<Rightarrow> app" where
  "loaded_app rs code raw =
     \<lparr>ratesData = Some \<lparr>updated = ''2024-01-01'', rates = rs\<rparr>, isLoading = False,
      elements = page code raw, timers = []\<rparr>"

section \<open>Properties of the formatter\<close>

subsection \<open>Digits and the fixed notation\<close>

lemma digit_char_is_digit: "d < 10 \<Longrightarrow> is_digit (digit_char d)"
proof -
  assume "d < 10"
  then have "d \<in> {0, 1, 2, 3, 4, 5, 6, 7, 8, 9}" by auto
  then show ?thesis
    by (auto simp: digit_char_def is_digit_def)
qed

lemma is_digit_not_point: "is_digit c \<Longrightarrow> c \<noteq> CHR ''.'' \<and> c \<noteq> CHR ''-''"
  by (auto simp: is_digit_def)

lemma dec_digits_digits: "\<forall>c \<in> set (dec_digits n). is_digit c"
proof (induction n rule: dec_digits.induct)
  case (1 n)
  show ?case
  proof (cases "n < 10")
    case True
    then show ?thesis
      by (subst dec_digits.simps) (simp add: digit_char_is_digit)
  next
    case False
    with "1" show ?thesis
      by (subst dec_digits.simps) (simp add: digit_char_is_digit)
  qed
qed

lemma dec_digits_small: "n < 10 \<Longrightarrow> dec_digits n = [digit_char n]"
  by (subst dec_digits.simps) simp

lemma dec_digits_step: "10 \<le> n \<Longrightarrow> dec_digits n = dec_digits (n div 10) @ [digit_char (n mod 10)]"
  by (subst dec_digits.simps) simp

lemma dec_digits_nonempty: "dec_digits n \<noteq> []"
  by (subst dec_digits.simps) simp

lemma dec_digits_hundreds:
  assumes "100 \<le> n"
  shows "dec_digits n = dec_digits (n div 100) @ two_digits (n mod 100)"
proof -
  have a: "10 \<le> n" and b: "10 \<le> n div 10"
    using assms by auto
  have c: "n div 10 div 10 = n div 100"
    by (simp add: div_mult2_eq [symmetric])
  have e: "n mod 100 = 10 * (n div 10 mod 10) + n mod 10"
    using mod_mult2_eq [of n 10 10] by simp
  have d: "n mod 100 div 10 = n div 10 mod 10" "n mod 100 mod 10 = n mod 10"
    unfolding e by simp_all
  show ?thesis
    by (simp add: dec_digits_step [OF a] dec_digits_step [OF b] c d two_digits_def)
qed

lemma fixed_digits_eq:
  "fixed_digits n = dec_digits (n div 100) @ ''.'' @ two_digits (n mod 100)"
proof -
  consider "n < 10" | "10 \<le> n" "n < 100" | "100 \<le> n"
    by linarith
  then show ?thesis
  proof cases
    case 1
    then have "dec_digits n = [digit_char n]" "n div 100 = 0" "n mod 100 = n" "n div 10 = 0"
      "n mod 10 = n"
      by (simp_all add: dec_digits_small)
    then show ?thesis
      by (simp add: fixed_digits_def dec_digits_small two_digits_def digit_char_def
          numeral_2_eq_2)
  next
    case 2
    then have "n div 10 < 10" by auto
    with 2 have "dec_digits n = [digit_char (n div 10), digit_char (n mod 10)]"
      by (simp add: dec_digits_step dec_digits_small)
    moreover from 2 have "n div 100 = 0" "n mod 100 = n"
      by simp_all
    ultimately show ?thesis
      by (simp add: fixed_digits_def dec_digits_small two_digits_def digit_char_def)
  next
    case 3
    define hi where "hi = dec_digits (n div 100)"
    define lo where "lo = two_digits (n mod 100)"
    have split: "dec_digits n = hi @ lo"
      unfolding hi_def lo_def by (rule dec_digits_hundreds [OF 3])
    have lo: "length lo = 2"
      by (simp add: lo_def two_digits_def)
    have hi: "hi \<noteq> []"
      by (simp add: hi_def dec_digits_nonempty)
    have "fixed_digits n = hi @ ''.'' @ lo"
      using lo hi by (simp add: fixed_digits_def split)
    then show ?thesis
      by (simp add: hi_def lo_def)
  qed
qed

subsection \<open>Splitting and grouping\<close>

lemma split_on_no_sep: "c \<notin> set xs \<Longrightarrow> split_on c xs = (xs, [])"
  by (induction xs) auto

lemma split_on_first:
  "c \<notin> set xs \<Longrightarrow> split_on c (xs @ c # ys) = (xs, fst (split_on c ys) # snd (split_on c ys))"
  by (induction xs) (auto simp: case_prod_beta)

lemma pairs_snoc: "even (length xs) \<Longrightarrow> pairs (xs @ [a, b]) = pairs xs @ [[a, b]]"
  by (induction xs rule: pairs.induct) auto

lemma chunks_of_two_snoc:
  "chunks_of_two (xs @ [a, b]) = chunks_of_two xs @ [[a, b]]"
proof (cases "even (length xs)")
  case True
  then show ?thesis by (simp add: chunks_of_two_def pairs_snoc)
next
  case False
  then obtain x xs' where xs: "xs = x # xs'" by (cases xs) auto
  with False have "even (length xs')" by simp
  then show ?thesis
    using False by (simp add: chunks_of_two_def xs pairs_snoc)
qed

lemma nepali_loop_chunks:
  "nepali_loop remaining formatted =
     concat (map (\<lambda>c. c @ '','') (chunks_of_two remaining)) @ formatted"
proof (induction remaining formatted rule: nepali_loop.induct)
  case (1 remaining formatted)
  show ?case
  proof (cases remaining rule: rev_cases)
    case Nil
    then show ?thesis
      by (subst nepali_loop.simps) (simp add: chunks_of_two_def)
  next
    case (snoc ys b)
    note outer = snoc
    show ?thesis
    proof (cases ys rule: rev_cases)
      case Nil
      with outer show ?thesis
        by (subst nepali_loop.simps, subst nepali_loop.simps)
           (simp add: chunks_of_two_def slice_front_def slice_last_def)
    next
      case (snoc zs a)
      with outer have r: "remaining = zs @ [a, b]" by simp
      have "nepali_loop remaining formatted =
          nepali_loop zs ([a, b] @ '','' @ formatted)"
        by (subst nepali_loop.simps) (simp add: r slice_front_def slice_last_def)
      also have "\<dots> = concat (map (\<lambda>c. c @ '','') (chunks_of_two zs)) @ [a, b] @ '','' @ formatted"
        using "1.IH" by (simp add: r slice_front_def slice_last_def)
      finally show ?thesis
        by (simp add: r chunks_of_two_snoc)
    qed
  qed
qed

lemma two_digits_digits: "m < 100 \<Longrightarrow> \<forall>c \<in> set (two_digits m). is_digit c"
  by (simp add: two_digits_def digit_char_is_digit)

subsection \<open>The fixed notation, where it applies\<close>

lemma toFixed2_fixed:
  assumes "\<bar>x\<bar> < 10 ^ 21"
  shows "toFixed2 (Fin x) =
     (if x < 0 then ''-'' else []) @ dec_digits (spec_cents x div 100) @ ''.''
       @ two_digits (spec_cents x mod 100)"
  using assms by (simp add: toFixed2_def fixed_digits_eq spec_cents_def)

lemma formatNPR_fixed:
  assumes nz: "x \<noteq> 0" and small: "\<bar>x\<bar> < 10 ^ 21"
  shows "formatNPR (Fin x) =
     (if x < 0 then ''-'' else []) @ npr_prefix
       @ spec_group (dec_digits (spec_cents x div 100))
       @ ''.'' @ two_digits (spec_cents x mod 100)"
proof -
  define ip where "ip = dec_digits (spec_cents x div 100)"
  define fr where "fr = two_digits (spec_cents x mod 100)"
  define sg where "sg = (if x < 0 then ''-'' else [])"
  have ip_digits: "\<forall>c \<in> set ip. is_digit c"
    by (simp add: ip_def dec_digits_digits)
  have fr_digits: "\<forall>c \<in> set fr. is_digit c"
    unfolding fr_def by (rule two_digits_digits) simp
  have ip_ne: "ip \<noteq> []"
    by (simp add: ip_def dec_digits_nonempty)
  have fixed: "toFixed2 (Fin x) = (sg @ ip) @ CHR ''.'' # fr"
    by (simp add: toFixed2_fixed [OF small] sg_def ip_def fr_def)
  have no_point: "CHR ''.'' \<notin> set (sg @ ip)" "CHR ''.'' \<notin> set fr"
    using ip_digits fr_digits is_digit_not_point by (auto simp: sg_def)
  have parts: "split_on (CHR ''.'') (toFixed2 (Fin x)) = (sg @ ip, [fr])"
    unfolding fixed
    using split_on_first [of "CHR ''.''" "sg @ ip" fr] no_point
    by (simp add: split_on_no_sep)
  have neg: "startsWith (CHR ''-'') (sg @ ip) = (x < 0)"
    using ip_ne ip_digits is_digit_not_point
    by (cases ip) (auto simp: startsWith_def sg_def)
  have int_part: "(if x < 0 then drop 1 (sg @ ip) else sg @ ip) = ip"
    by (simp add: sg_def)
  have grouped: "(if length ip \<le> 3 then ip
      else nepali_loop (slice_front 3 ip) (slice_last 3 ip)) = spec_group ip"
    by (simp add: spec_group_def nepali_loop_chunks slice_front_def slice_last_def)
  show ?thesis
    using nz
    by (simp add: formatNPR_def is_zero_def parts neg int_part grouped
        flip: ip_def fr_def sg_def)
qed

subsection \<open>Evaluation at \<open>10 ^ 21\<close>\<close>

text \<open>
  The simplifier evaluates \<open>\<lfloor>a / b\<rfloor>\<close> on numerals of type \<open>real\<close>; these are the same
  facts for \<open>rat\<close>.
\<close>

lemma floor_rat_numeral:
  "\<lfloor>numeral a / numeral b :: rat\<rfloor> = numeral a div numeral b"
  using floor_divide_of_int_eq [of "numeral a" "numeral b", where ?'a = rat] by simp

lemma ceiling_rat_numeral:
  "\<lceil>numeral a / numeral b :: rat\<rceil> = - (- numeral a div numeral b)"
  using ceiling_divide_eq_div [of "numeral a" "numeral b", where ?'a = rat] by simp

lemma floor_rat_one_numeral:
  "\<lfloor>1 / numeral b :: rat\<rfloor> = 1 div numeral b"
  using floor_divide_of_int_eq [of 1 "numeral b", where ?'a = rat] by simp

lemma ceiling_rat_one_numeral:
  "\<lceil>1 / numeral b :: rat\<rceil> = - (- 1 div numeral b)"
  using ceiling_divide_eq_div [of 1 "numeral b", where ?'a = rat] by simp

lemmas rat_eval =
  floor_rat_numeral ceiling_rat_numeral floor_rat_one_numeral ceiling_rat_one_numeral

lemmas fl_eval =
  rat_eval fl_pos_def ilog2_def compute_floorlog pow2_def round_half_even_def Let_def

lemmas digits_eval = rat_eval dec_digits.simps digit_char_def

lemma fl_pos_1e21: "fl_pos 1000000000000000000000 = Fin 1000000000000000000000"
  by (simp add: fl_eval)

lemma fl_pos_1e22: "fl_pos 10000000000000000000000 = Fin 10000000000000000000000"
  by (simp add: fl_eval)

lemma int_digits_1e21:
  "length (dec_digits (nat \<lfloor>1000000000000000000000 :: rat\<rfloor>)) = 22"
  by (simp add: digits_eval)

lemma digit_cands_1e21: "digit_cands 1000000000000000000000 (Suc 0) = [(Suc 0, 22)]"
  unfolding digit_cands_def int_digits_1e21 Let_def
  by (simp add: rat_eval fl_pos_1e21 fl_pos_1e22)

lemma upt_1_18: "[1 ..< 18] = Suc 0 # [2 ..< 18]"
  by (simp add: upt_conv_Cons)

lemma shortest_digits_1e21: "shortest_digits 1000000000000000000000 = (1, 1, 22)"
  unfolding shortest_digits_def upt_1_18 find.simps digit_cands_1e21
  by (simp add: digit_cands_1e21)

lemma toString_large_1e21: "toString_large 1000000000000000000000 = ''1e+21''"
  by (simp add: toString_large_def shortest_digits_1e21 digits_eval)

lemma toFixed2_1e21: "toFixed2 (Fin 1000000000000000000000) = ''1e+21''"
  by (simp add: toFixed2_def toString_large_1e21)

lemma toFixed2_minus_1e21: "toFixed2 (Fin (- 1000000000000000000000)) = ''-1e+21''"
  by (simp add: toFixed2_def toString_large_1e21)

lemmas format_eval =
  formatNPR_def is_zero_def startsWith_def slice_front_def slice_last_def nepali_loop.simps

lemma formatNPR_1e21:
  "formatNPR (Fin 1000000000000000000000) = npr_prefix @ ''1e,+21.undefined''"
  by (simp add: format_eval toFixed2_1e21)

lemma formatNPR_minus_1e21:
  "formatNPR (Fin (- 1000000000000000000000)) = ''-'' @ npr_prefix @ ''1e,+21.undefined''"
  by (simp add: format_eval toFixed2_minus_1e21)

lemmas spec_eval =
  spec_format_def spec_cents_def spec_group_def chunks_of_two_def two_digits_def digits_eval

section \<open>The claims about formatNPR\<close>

text \<open>
  C7: \<open>format(0)\<close> is exactly the prefix followed by \<open>0.00\<close>; the test \<open>amount === 0\<close>
  holds for \<open>-0\<close> as well, so negative zero is formatted the same way, with no minus
  sign.
\<close>

theorem formatNPR_zero:
  "formatNPR (Fin 0) = npr_prefix @ ''0.00'' \<and> formatNPR NegZero = npr_prefix @ ''0.00''"
  by (simp add: formatNPR_def is_zero_def)

subsection \<open>Amounts below \<open>10 ^ 21\<close>\<close>

text \<open>
  For every finite amount of magnitude below \<open>10 ^ 21\<close>, \<open>formatNPR\<close> produces the string
  of the specification's algorithm: the amount rounded to two decimals, the last three
  integer digits as one group and the digits before them in chunks of two from the
  right.  \<open>1234567\<close> is grouped as \<open>12,34,567\<close>.
\<close>

lemma formatNPR_refines_spec:
  assumes "\<bar>x\<bar> < 10 ^ 21"
  shows "formatNPR (Fin x) = spec_format x"
proof (cases "x = 0")
  case True
  then show ?thesis
    by (simp add: formatNPR_def is_zero_def spec_format_def)
next
  case False
  then show ?thesis
    using formatNPR_fixed [OF False assms] by (simp add: spec_format_def)
qed

lemma formatNPR_1234567: "formatNPR (Fin 1234567) = npr_prefix @ ''12,34,567.00''"
  using formatNPR_refines_spec [of 1234567] by (simp add: spec_eval)

text \<open>
  For every negative finite amount of magnitude below \<open>10 ^ 21\<close> the result is the
  minus sign, then the prefix with its space, then the grouped integer digits, then a
  point and the two fractional digits; \<open>-1234.50\<close> gives \<open>1,234.50\<close> after the prefix.
  The minus sign comes first for every negative amount, whatever follows the prefix.
\<close>

lemma formatNPR_negative_order:
  assumes "x < 0" and "\<bar>x\<bar> < 10 ^ 21"
  shows "formatNPR (Fin x) =
     ''-'' @ npr_prefix @ spec_group (dec_digits (spec_cents x div 100))
       @ ''.'' @ two_digits (spec_cents x mod 100)"
  using formatNPR_fixed [of x] assms by simp

lemma formatNPR_minus_1234_50:
  "formatNPR (Fin (- (2469 / 2))) = ''-'' @ npr_prefix @ ''1,234.50''"
  using formatNPR_negative_order [of "- (2469 / 2)"] by (simp add: spec_eval)

lemma formatNPR_sign_first:
  assumes "x < 0"
  shows "\<exists>rest. formatNPR (Fin x) = ''-'' @ npr_prefix @ rest"
proof -
  obtain body where tf: "toFixed2 (Fin x) = CHR ''-'' # body"
    using assms by (simp add: toFixed2_def)
  obtain p ps where sp: "split_on (CHR ''.'') body = (p, ps)"
    by (cases "split_on (CHR ''.'') body") auto
  have "split_on (CHR ''.'') (toFixed2 (Fin x)) = (CHR ''-'' # p, ps)"
    by (simp add: tf sp)
  then show ?thesis
    using assms by (simp add: formatNPR_def is_zero_def startsWith_def Let_def)
qed

subsection \<open>Amounts from \<open>10 ^ 21\<close> on\<close>

text \<open>
  C1 fails on the code at the finite amount \<open>10 ^ 21\<close>: \<open>toFixed(2)\<close> answers \<open>1e+21\<close>,
  which has no point, and \<open>formatNPR\<close> groups the characters of that text and appends
  \<open>.undefined\<close>, where the specification's algorithm gives the grouped digits of the
  amount and \<open>.00\<close>.
\<close>

theorem format_1e21_not_grouped:
  "formatNPR (Fin (10 ^ 21)) = npr_prefix @ ''1e,+21.undefined''
     \<and> spec_format (10 ^ 21) = npr_prefix @ ''1,00,00,00,00,00,00,00,00,00,000.00''"
  by (simp add: formatNPR_1e21 spec_eval)

text \<open>
  C8 fails on the code at the negative finite amount \<open>- 10 ^ 21\<close>: the minus sign and
  the prefix come first, but what follows is \<open>1e,+21.undefined\<close>, neither the grouped
  integer digits nor two fractional digits.
\<close>

theorem format_minus_1e21_not_digits:
  "formatNPR (Fin (- (10 ^ 21))) = ''-'' @ npr_prefix @ ''1e,+21.undefined''
     \<and> ''-'' @ npr_prefix @ spec_group (dec_digits (spec_cents (- (10 ^ 21)) div 100))
           @ ''.'' @ two_digits (spec_cents (- (10 ^ 21)) mod 100)
         = ''-'' @ npr_prefix @ ''1,00,00,00,00,00,00,00,00,00,000.00''"
  by (simp add: formatNPR_minus_1e21 spec_eval)

section \<open>Properties of convertCurrency\<close>

lemma convertCurrency_result:
  assumes "ratesData st = Some rd" and "currency (elements st) = Some cur"
    and "amount (elements st) = Some amt" and "map_of (rates rd) (el_value cur) = Some r"
  shows "resultAmount (elements (convertCurrency st)) =
     map_option (\<lambda>el. el\<lparr>textContent :=
         formatNPR (js_mul (or_zero (parseFloat (el_value amt))) (sell r))\<rparr>)
       (resultAmount (elements st))"
  using assms by (auto simp: convertCurrency_def Let_def split: option.splits)

lemma convertCurrency_rate:
  assumes "ratesData st = Some rd" and "currency (elements st) = Some cur"
    and "amount (elements st) = Some amt" and "map_of (rates rd) (el_value cur) = Some r"
  shows "resultRate (elements (convertCurrency st)) =
     map_option (\<lambda>el. el\<lparr>textContent := ''1 '' @ el_value cur @ '' = NPR '' @ toFixed2 (sell r)\<rparr>)
       (resultRate (elements st))"
  using assms by (auto simp: convertCurrency_def Let_def split: option.splits)


lemma convertCurrency_not_loaded: "ratesData st = None \<Longrightarrow> convertCurrency st = st"
  by (simp add: convertCurrency_def)

lemmas parse_eval =
  parseFloat_def parse_unsigned_def parse_sign_def scan_fraction_def scan_exponent_def
  trim_start.simps ws_prefix_def ws_seqs_def is_digit_def digits_val_def digit_of_def pow10_def

lemmas state_eval = loaded_app_def loading_app_def page_def blank_def





section \<open>The claims about convertCurrency\<close>



lemma parseFloat_empty: "parseFloat [] = NaN"
  by (simp add: parse_eval)

lemma parseFloat_abc: "parseFloat ''abc'' = NaN"
  by (simp add: parse_eval)

lemma zero_times_rate_formats:
  "sell r \<noteq> NaN \<Longrightarrow> \<not> is_inf (sell r) \<Longrightarrow>
     formatNPR (js_mul (Fin 0) (sell r)) = npr_prefix @ ''0.00''"
  by (cases "sell r") (auto simp: js_mul_def formatNPR_def is_zero_def Let_def)

text \<open>
  C3: when the text of the amount field has no numeric prefix (\<open>parseFloat\<close> answers
  NaN, as it does for the empty string and for \<open>abc\<close>), \<open>convertCurrency\<close> goes on with
  the amount \<open>0\<close>: the result display receives \<open>formatNPR\<close> of \<open>0\<close> times the \<open>sell\<close> rate
  and the rate display its description, as in every successful conversion, and no error
  is shown; with a \<open>sell\<close> rate that is neither NaN nor infinite the result reads the
  prefix and \<open>0.00\<close>.
\<close>

theorem convert_unparseable_is_zero:
  assumes "ratesData st = Some rd" and "currency (elements st) = Some cur"
    and "amount (elements st) = Some amt" and "map_of (rates rd) (el_value cur) = Some r"
    and "parseFloat (el_value amt) = NaN"
  shows "map_option textContent (resultAmount (elements (convertCurrency st))) =
       map_option (\<lambda>el. formatNPR (js_mul (Fin 0) (sell r))) (resultAmount (elements st))
     \<and> map_option textContent (resultRate (elements (convertCurrency st))) =
       map_option (\<lambda>el. ''1 '' @ el_value cur @ '' = NPR '' @ toFixed2 (sell r))
         (resultRate (elements st))
     \<and> (sell r \<noteq> NaN \<and> \<not> is_inf (sell r) \<longrightarrow>
          formatNPR (js_mul (Fin 0) (sell r)) = npr_prefix @ ''0.00'')"
  using assms(5)
  by (simp add: convertCurrency_result [OF assms(1-4)] convertCurrency_rate [OF assms(1-4)]
      option.map_comp comp_def or_zero_def zero_times_rate_formats)

text \<open>The instances of the specification: the empty string and \<open>abc\<close>.\<close>

theorem convert_unparseable_is_zero_witness:
  "map_option textContent (resultAmount (elements (convertCurrency
       (loaded_app [(''XXX'', \<lparr>buy = Fin 1, sell = Fin 100\<rparr>)] ''XXX'' [])))) =
     Some (npr_prefix @ ''0.00'')
   \<and> map_option textContent (resultAmount (elements (convertCurrency
       (loaded_app [(''XXX'', \<lparr>buy = Fin 1, sell = Fin 100\<rparr>)] ''XXX'' ''abc'')))) =
     Some (npr_prefix @ ''0.00'')"
  using convert_unparseable_is_zero [of
      "loaded_app [(''XXX'', \<lparr>buy = Fin 1, sell = Fin 100\<rparr>)] ''XXX'' []"
      "\<lparr>updated = ''2024-01-01'', rates = [(''XXX'', \<lparr>buy = Fin 1, sell = Fin 100\<rparr>)]\<rparr>"
      "blank\<lparr>el_value := ''XXX''\<rparr>" "blank\<lparr>el_value := []\<rparr>"
      "\<lparr>buy = Fin 1, sell = Fin 100\<rparr>"]
    convert_unparseable_is_zero [of
      "loaded_app [(''XXX'', \<lparr>buy = Fin 1, sell = Fin 100\<rparr>)] ''XXX'' ''abc''"
      "\<lparr>updated = ''2024-01-01'', rates = [(''XXX'', \<lparr>buy = Fin 1, sell = Fin 100\<rparr>)]\<rparr>"
      "blank\<lparr>el_value := ''XXX''\<rparr>" "blank\<lparr>el_value := ''abc''\<rparr>"
      "\<lparr>buy = Fin 1, sell = Fin 100\<rparr>"]
  by (simp add: state_eval parseFloat_empty parseFloat_abc js_mul_def formatNPR_def is_zero_def)

lemma loadRates_failed_not_loaded:
  "ratesData st = None \<Longrightarrow> ratesData (loadRates f None st) = None"
  by (simp add: loadRates_def showError_def Let_def)

lemma loadRates_failed_result:
  "map_option textContent (resultAmount (elements (loadRates f None st))) =
     map_option (\<lambda>el. ''Rates unavailable'') (resultAmount (elements st))"
  by (auto simp: loadRates_def showError_def Let_def split: option.splits)

text \<open>
  C4, as amended: while no snapshot is loaded, \<open>convertCurrency\<close> returns at its first
  test and changes nothing, neither the display nor any other state.  The words
  \<open>Rates unavailable\<close> are written by \<open>showError\<close> when the load fails; a conversion
  attempted after that leaves them in place, and they are not the message of an unknown
  currency.
\<close>

theorem convert_not_loaded_is_silent:
  assumes "ratesData st = None"
  shows "convertCurrency st = st
     \<and> convertCurrency (loadRates f None st) = loadRates f None st
     \<and> map_option textContent (resultAmount (elements (convertCurrency (loadRates f None st)))) =
         map_option (\<lambda>el. ''Rates unavailable'') (resultAmount (elements st))
     \<and> map_option textContent (resultAmount (elements (convertCurrency (loadRates f None st))))
         \<noteq> Some ''Currency not available''"
  using assms
  by (cases "resultAmount (elements st)")
     (simp_all add: convertCurrency_not_loaded loadRates_failed_not_loaded
       loadRates_failed_result)

text \<open>An instance: the page while the fetch is pending, and after it has failed.\<close>

theorem convert_not_loaded_is_silent_witness:
  "ratesData (loading_app ''USD'' ''5'') = None
   \<and> convertCurrency (loading_app ''USD'' ''5'') = loading_app ''USD'' ''5''
   \<and> map_option textContent (resultAmount (elements
        (convertCurrency (loadRates id None (loading_app ''USD'' ''5''))))) =
      Some ''Rates unavailable''"
proof -
  have h: "ratesData (loading_app ''USD'' ''5'') = None"
    by (simp add: state_eval)
  have r: "resultAmount (elements (loading_app ''USD'' ''5'')) = Some blank"
    by (simp add: state_eval)
  show ?thesis
    using convert_not_loaded_is_silent [OF h, of id] h r by auto
qed

text \<open>
  C4 as stated fails while the fetch is pending: a conversion attempted then leaves the
  result display as it was (here empty), and no unavailable indication appears.
\<close>

theorem convert_while_loading_counterexample:
  "ratesData (loading_app ''USD'' ''5'') = None
   \<and> map_option textContent (resultAmount (elements (convertCurrency (loading_app ''USD'' ''5''))))
       = Some []
   \<and> map_option textContent (resultAmount (elements (convertCurrency (loading_app ''USD'' ''5''))))
       \<noteq> Some ''Rates unavailable''"
  by (simp add: convertCurrency_def state_eval)



lemma parseFloat_1e21: "parseFloat ''1e21'' = Fin 1000000000000000000000"
  by (simp add: parse_eval fl_pos_1e21)

lemma js_mul_1e21_1: "js_mul (Fin 1000000000000000000000) (Fin 1) = Fin 1000000000000000000000"
  by (simp add: js_mul_def fl_pos_1e21)

text \<open>
  C9 fails on the code: the page is loaded with the text \<open>1e21\<close> in the amount field
  and a \<open>sell\<close> rate of \<open>1\<close>, so that \<open>loadRates\<close> converts at once.  The product is
  \<open>10 ^ 21\<close>, for which \<open>toFixed(2)\<close> answers \<open>1e+21\<close>; the result display then ends
  in \<open>.undefined\<close> instead of two decimal digits.  The rate description and the table
  cells print \<open>toFixed(2)\<close> as it is, so a rate of \<open>10 ^ 21\<close> appears there as \<open>1e+21\<close>.
\<close>

theorem convert_1e21_not_two_decimals:
  "map_option textContent (resultAmount (elements (loadRates id
       (Some \<lparr>updated = ''2024-01-01'', rates = [(''USD'', \<lparr>buy = Fin 1, sell = Fin 1\<rparr>)]\<rparr>)
       (loading_app ''USD'' ''1e21'')))) =
     Some (npr_prefix @ ''1e,+21.undefined'')
   \<and> toFixed2 (Fin (10 ^ 21)) = ''1e+21''"
  by (simp add: loadRates_def updateLastUpdated_def updateRatesTable_def convertCurrency_def
      state_eval parseFloat_1e21 or_zero_def is_zero_def js_mul_1e21_1 formatNPR_1e21 Let_def
      toFixed2_1e21)

section \<open>Properties of parseFloat\<close>










subsection \<open>Leading white space\<close>



lemma ws_seqs_nonempty: "w \<in> set ws_seqs \<Longrightarrow> w \<noteq> []"
  by (auto simp: ws_seqs_def)










section \<open>The claim about trailing text in the amount\<close>






section \<open>Properties of debounce\<close>

lemma executedFunction_arms:
  assumes "pending s = [] \<or> (\<exists>i d a'. pending s = [(i, d, a')] \<and> timeout s = Some i)"
  shows "pending (executedFunction wait a s) = [(next_id s, now s + wait, a)]
     \<and> timeout (executedFunction wait a s) = Some (next_id s)
     \<and> now (executedFunction wait a s) = now s
     \<and> target (executedFunction wait a s) = target s"
  using assms
  by (auto simp: executedFunction_def clearTimeout_def setTimeout_def split: option.splits)

lemma run_until_idle:
  assumes "\<forall>(i, d, a) \<in> set (pending s). t < d"
  shows "run_until func t s = s\<lparr>now := max (now s) t\<rparr>"
proof -
  have "filter (\<lambda>(i, d, a). d \<le> t) (pending s) = []"
    using assms by (auto simp: filter_empty_conv)
  then have "next_due t s = None"
    by (simp add: next_due_def)
  then show ?thesis
    by (subst run_until.simps) simp
qed

lemma run_until_fires:
  assumes "pending s = [(i, d, a)]" and "d \<le> t"
  shows "run_until func t s =
     s\<lparr>pending := [], now := max (max (now s) d) t, target := func a (target s)\<rparr>"
proof -
  have "next_due t s = Some (i, d, a)"
    using assms by (simp add: next_due_def)
  moreover have fired: "fire func (i, d, a) s =
      s\<lparr>pending := [], now := max (now s) d, target := func a (target s)\<rparr>"
    using assms by (simp add: fire_def later_def clearTimeout_def split: option.splits)
  moreover have "run_until func t (fire func (i, d, a) s) =
      (fire func (i, d, a) s)\<lparr>now := max (now (fire func (i, d, a) s)) t\<rparr>"
    by (rule run_until_idle) (simp add: fired)
  ultimately show ?thesis
    by (subst run_until.simps) (simp add: fired)
qed

lemma run_until_at_most_one:
  assumes "pending s = [] \<or> (\<exists>i d a'. pending s = [(i, d, a')] \<and> timeout s = Some i)"
  shows "(pending (run_until func t s) = []
       \<or> (\<exists>i d a'. pending (run_until func t s) = [(i, d, a')]
            \<and> timeout (run_until func t s) = Some i))"
proof -
  consider "pending s = []"
    | i d a' where "pending s = [(i, d, a')]" "timeout s = Some i" "d \<le> t"
    | i d a' where "pending s = [(i, d, a')]" "timeout s = Some i" "t < d"
    using assms by (metis not_le)
  then show ?thesis
  proof cases
    case 1
    then show ?thesis by (simp add: run_until_idle)
  next
    case 2
    then show ?thesis by (simp add: run_until_fires)
  next
    case 3
    then show ?thesis by (simp add: run_until_idle)
  qed
qed

lemma run_triggers_at_most_one:
  assumes "pending s = [] \<or> (\<exists>i d a'. pending s = [(i, d, a')] \<and> timeout s = Some i)"
  shows "pending (run_triggers func wait es s) = []
       \<or> (\<exists>i d a'. pending (run_triggers func wait es s) = [(i, d, a')]
            \<and> timeout (run_triggers func wait es s) = Some i)"
  using assms
proof (induction es arbitrary: s)
  case Nil
  then show ?case by simp
next
  case (Cons e es)
  obtain t a where e: "e = (t, a)"
    by (cases e) auto
  let ?s1 = "executedFunction wait a (run_until func t s)"
  have "pending ?s1 = [(next_id (run_until func t s), now (run_until func t s) + wait, a)]
      \<and> timeout ?s1 = Some (next_id (run_until func t s))"
    using executedFunction_arms [OF run_until_at_most_one [OF Cons.prems]] by blast
  then have "pending ?s1 = [] \<or> (\<exists>i d a'. pending ?s1 = [(i, d, a')] \<and> timeout ?s1 = Some i)"
    by blast
  from Cons.IH [OF this] show ?case
    by (simp add: e)
qed

lemma run_triggers_armed:
  assumes "quiet_burst wait ((t0, a0) # es)"
    and "pending s = [(i, t0 + wait, a0)]" and "timeout s = Some i" and "now s = t0"
  shows "\<exists>j. pending (run_triggers func wait es s) =
         [(j, fst (last ((t0, a0) # es)) + wait, snd (last ((t0, a0) # es)))]
       \<and> timeout (run_triggers func wait es s) = Some j
       \<and> now (run_triggers func wait es s) = fst (last ((t0, a0) # es))
       \<and> target (run_triggers func wait es s) = target s"
  using assms
proof (induction es arbitrary: s t0 a0 i)
  case Nil
  then show ?case by simp
next
  case (Cons e es)
  obtain t1 a1 where e: "e = (t1, a1)"
    by (cases e) auto
  from Cons.prems(1) have order: "t0 \<le> t1" "t1 < t0 + wait"
    and rest: "quiet_burst wait ((t1, a1) # es)"
    by (simp_all add: e)
  let ?s0 = "run_until func t1 s"
  have idle: "?s0 = s\<lparr>now := max (now s) t1\<rparr>"
    by (rule run_until_idle) (simp add: Cons.prems(2) order)
  let ?s1 = "executedFunction wait a1 ?s0"
  have "pending ?s0 = [] \<or> (\<exists>i d a'. pending ?s0 = [(i, d, a')] \<and> timeout ?s0 = Some i)"
    by (simp add: idle Cons.prems)
  from executedFunction_arms [OF this, of wait a1]
  have armed: "pending ?s1 = [(next_id ?s0, t1 + wait, a1)]" "timeout ?s1 = Some (next_id ?s0)"
    "now ?s1 = t1" "target ?s1 = target s"
    using order by (simp_all add: idle Cons.prems(4) max_def)
  from Cons.IH [OF rest armed(1-3)] armed(4) show ?case
    by (simp add: e)
qed

lemma run_triggers_burst:
  assumes "es \<noteq> []" and "quiet_burst wait es"
  shows "\<exists>j. pending (run_triggers func wait es (sched_init tgt)) =
         [(j, fst (last es) + wait, snd (last es))]
       \<and> timeout (run_triggers func wait es (sched_init tgt)) = Some j
       \<and> now (run_triggers func wait es (sched_init tgt)) = fst (last es)
       \<and> target (run_triggers func wait es (sched_init tgt)) = tgt"
proof -
  from assms(1) obtain t0 a0 es' where es: "es = (t0, a0) # es'"
    by (cases es) auto
  let ?s0 = "run_until func t0 (sched_init tgt :: ('a, 'b) sched)"
  have idle: "?s0 = (sched_init tgt)\<lparr>now := max (now (sched_init tgt :: ('a, 'b) sched)) t0\<rparr>"
    by (rule run_until_idle) (simp add: sched_init_def)
  let ?s1 = "executedFunction wait a0 ?s0"
  have "pending ?s0 = [] \<or> (\<exists>i d a'. pending ?s0 = [(i, d, a')] \<and> timeout ?s0 = Some i)"
    unfolding idle by (simp add: sched_init_def)
  from executedFunction_arms [OF this, of wait a0]
  have armed: "pending ?s1 = [(next_id ?s0, t0 + wait, a0)]" "timeout ?s1 = Some (next_id ?s0)"
    "now ?s1 = t0" "target ?s1 = tgt"
    unfolding idle by (simp_all add: sched_init_def)
  from run_triggers_armed [OF assms(2) [unfolded es] armed(1-3), of func] armed(4)
  show ?thesis
    by (simp add: es)
qed

lemma sched_init_at_most_one:
  "pending (sched_init tgt) = []
     \<or> (\<exists>i d a'. pending (sched_init tgt) = [(i, d, a')] \<and> timeout (sched_init tgt) = Some i)"
  by (simp add: sched_init_def)

section \<open>The claim about debounce\<close>

text \<open>
  C6: for a series of one or more \<open>input\<close> events, each less than the 300 ms of
  \<open>bindEvents\<close> after the one before, starting from the state in which \<open>debounce\<close> has
  just been called: after the last event exactly one timer is pending, due 300 ms after
  that event and holding its arguments, and \<open>func\<close> has not run; it has still not run at
  any time before that due time; from the due time on it has run exactly once, with the
  arguments of the last event, and no timer is left.  At every moment, after any part of
  the series, at most one timer is pending.
\<close>

theorem debounce_collapses_burst:
  assumes "es \<noteq> []" and "quiet_burst input_wait es"
  shows "(\<exists>j. pending (run_triggers func input_wait es (sched_init tgt)) =
         [(j, fst (last es) + input_wait, snd (last es))])
     \<and> target (run_triggers func input_wait es (sched_init tgt)) = tgt
     \<and> (\<forall>T. T < fst (last es) + input_wait \<longrightarrow>
          target (run_until func T (run_triggers func input_wait es (sched_init tgt))) = tgt)
     \<and> (\<forall>T. fst (last es) + input_wait \<le> T \<longrightarrow>
          target (run_until func T (run_triggers func input_wait es (sched_init tgt))) =
            func (snd (last es)) tgt
          \<and> pending (run_until func T (run_triggers func input_wait es (sched_init tgt))) = [])
     \<and> (\<forall>n T. length (pending (run_until func T
          (run_triggers func input_wait (take n es) (sched_init tgt)))) \<le> 1)"
proof -
  let ?s = "run_triggers func input_wait es (sched_init tgt)"
  from run_triggers_burst [OF assms, of func tgt]
  obtain j where p: "pending ?s = [(j, fst (last es) + input_wait, snd (last es))]"
    and tg: "target ?s = tgt"
    by blast
  have before: "target (run_until func T ?s) = tgt" if "T < fst (last es) + input_wait" for T
  proof -
    have "run_until func T ?s = ?s\<lparr>now := max (now ?s) T\<rparr>"
      by (rule run_until_idle) (simp add: p that)
    then show ?thesis
      by (simp add: tg)
  qed
  have after: "target (run_until func T ?s) = func (snd (last es)) tgt
      \<and> pending (run_until func T ?s) = []" if "fst (last es) + input_wait \<le> T" for T
    by (simp add: run_until_fires [OF p that] tg)
  have one: "length (pending (run_until func T
      (run_triggers func input_wait (take n es) (sched_init tgt)))) \<le> 1" for n T
    using run_until_at_most_one [OF run_triggers_at_most_one [OF sched_init_at_most_one],
        of func T func input_wait "take n es" tgt]
    by auto
  show ?thesis
    using p tg before after one by blast
qed

text \<open>
  An instance: events at 0, 100 and 250 ms, and a \<open>func\<close> that logs its argument.  At
  549 ms the log is empty; at 550 ms it holds the argument of the last event alone.
\<close>

theorem debounce_collapses_burst_witness:
  "quiet_burst input_wait [(0, ''a''), (100, ''b''), (250, ''c'')]
   \<and> target (run_until (\<lambda>a log. log @ [a]) 549
        (run_triggers (\<lambda>a log. log @ [a]) input_wait [(0, ''a''), (100, ''b''), (250, ''c'')]
          (sched_init []))) = []
   \<and> target (run_until (\<lambda>a log. log @ [a]) 550
        (run_triggers (\<lambda>a log. log @ [a]) input_wait [(0, ''a''), (100, ''b''), (250, ''c'')]
          (sched_init []))) = [''c'']
   \<and> pending (run_until (\<lambda>a log. log @ [a]) 550
        (run_triggers (\<lambda>a log. log @ [a]) input_wait [(0, ''a''), (100, ''b''), (250, ''c'')]
          (sched_init []))) = []"
proof -
  let ?es = "[(0 :: nat, ''a''), (100, ''b''), (250, ''c'')]"
  have ne: "?es \<noteq> []"
    by simp
  have qb: "quiet_burst input_wait ?es"
    by (simp add: input_wait_def)
  from debounce_collapses_burst [OF ne qb, of "\<lambda>a log. log @ [a]" "[]"]
  have a: "\<forall>T. T < 550 \<longrightarrow> target (run_until (\<lambda>a log. log @ [a]) T
        (run_triggers (\<lambda>a log. log @ [a]) input_wait ?es (sched_init []))) = []"
    and b: "\<forall>T. 550 \<le> T \<longrightarrow> target (run_until (\<lambda>a log. log @ [a]) T
        (run_triggers (\<lambda>a log. log @ [a]) input_wait ?es (sched_init []))) = [''c'']
      \<and> pending (run_until (\<lambda>a log. log @ [a]) T
        (run_triggers (\<lambda>a log. log @ [a]) input_wait ?es (sched_init []))) = []"
    by (simp_all add: input_wait_def)
  from a have "target (run_until (\<lambda>a log. log @ [a]) 549
        (run_triggers (\<lambda>a log. log @ [a]) input_wait ?es (sched_init []))) = []"
    by simp
  moreover from b have "target (run_until (\<lambda>a log. log @ [a]) 550
        (run_triggers (\<lambda>a log. log @ [a]) input_wait ?es (sched_init []))) = [''c'']
      \<and> pending (run_until (\<lambda>a log. log @ [a]) 550
        (run_triggers (\<lambda>a log. log @ [a]) input_wait ?es (sched_init []))) = []"
    by simp
  ultimately show ?thesis
    using qb by simp
qed

end
